theory Spec2Isabelle
  imports Main
begin

section \<open>The kubetoken cache and its fetch client\<close>

text \<open>
  A shallow embedding of package \<open>okteto\<close>, file \<open>kubetoken\<close>: the file-backed byte
  store, the token cache built over the \<open>stringStore\<close> interface, and the HTTP client that
  fetches a token and caches it.

  Go's \<open>[]byte\<close> and \<open>string\<close> are both \<open>string\<close> here. Every function that touches the
  backing store takes the store's state and returns the new one next to its result. An
  \<open>(T, error)\<close> result is \<open>error + T\<close> (\<open>Inl\<close> the error); a lone \<open>error\<close> result is
  \<open>error option\<close> (\<open>None\<close> is \<open>nil\<close>).
\<close>

subsection \<open>Data\<close>

type_synonym bytes = string

text \<open>An instant on the time line (\<open>time.Time\<close>); \<open>t.After(u)\<close> is \<open>u < t\<close>.\<close>

type_synonym instant = int

text \<open>
  The errors the file builds. \<open>Wrapped msg e\<close> is \<open>fmt.Errorf(msg + ": %w", e)\<close>;
  \<open>ExternalError\<close> is any error that comes out of a collaborator (package \<open>os\<close>, the HTTP
  transport, \<open>io.ReadAll\<close>, \<open>encoding/json\<close>, an injected store) other than
  \<open>os.ErrNotExist\<close>, which is \<open>ErrNotExist\<close>.
\<close>

datatype error =
    ErrNotExist
  | ExternalError string
  | Wrapped string error
  | DecodeError
  | ErrNotLogged string
  | UnexpectedStatus string

text \<open>\<open>errors.Is(err, os.ErrNotExist)\<close>: the error, or one it wraps, is \<open>os.ErrNotExist\<close>.\<close>

fun errors_Is_ErrNotExist :: "error \<Rightarrow> bool" where
  "errors_Is_ErrNotExist ErrNotExist = True"
| "errors_Is_ErrNotExist (Wrapped msg err) = errors_Is_ErrNotExist err"
| "errors_Is_ErrNotExist err = False"

text \<open>
  \<open>storeRegister\<close>. The token type \<open>authenticationv1.TokenRequest\<close> is declared outside the
  repository: it is the type parameter \<open>'tok\<close>.
\<close>

record 'tok storeRegister =
  ContextName :: string
  Namespace :: string
  Token :: 'tok

text \<open>
  What the file uses of its imports and does not define: the field path
  \<open>Status.ExpirationTimestamp.Time\<close> of a token, and \<open>encoding/json\<close> at the two types it is
  called at (\<open>[]storeRegister\<close> and \<open>TokenRequest\<close>), each returning its error or its
  result.
\<close>

record 'tok externals =
  ExpirationTimestamp :: "'tok \<Rightarrow> instant"
  Unmarshal_store :: "bytes \<Rightarrow> error + 'tok storeRegister list"
  MarshalIndent_store :: "'tok storeRegister list \<Rightarrow> error + bytes"
  Unmarshal_token :: "bytes \<Rightarrow> error + 'tok"
  MarshalIndent_token :: "'tok \<Rightarrow> error + bytes"

text \<open>
  Package \<open>os\<close>, over a file system of type \<open>'fs\<close>: \<open>os.Stat\<close> (only its error is looked
  at), \<open>os.WriteFile\<close> and \<open>os.ReadFile\<close>.
\<close>

record 'fs os =
  Stat :: "string \<Rightarrow> 'fs \<Rightarrow> error option"
  WriteFile :: "string \<Rightarrow> bytes \<Rightarrow> 'fs \<Rightarrow> error option \<times> 'fs"
  ReadFile :: "string \<Rightarrow> 'fs \<Rightarrow> error + bytes"

text \<open>The interface \<open>stringStore\<close>, over a store state of type \<open>'s\<close>.\<close>

record 's stringStore =
  Get :: "'s \<Rightarrow> (error + bytes) \<times> 's"
  Set :: "bytes \<Rightarrow> 's \<Rightarrow> error option \<times> 's"

subsection \<open>FileByteStore\<close>

definition FileByteStore_Get :: "'fs os \<Rightarrow> string \<Rightarrow> 'fs \<Rightarrow> (error + bytes) \<times> 'fs" where
  "FileByteStore_Get OS FileName fs =
     (let readContents = (\<lambda>fs1.
            case ReadFile OS FileName fs1 of
              Inl err \<Rightarrow> (Inl (Wrapped ''error reading file'' err), fs1)
            | Inr contents \<Rightarrow> (Inr contents, fs1))
      in case Stat OS FileName fs of
           Some err \<Rightarrow>
             if \<not> errors_Is_ErrNotExist err
             then (Inl (Wrapped ''error checking if file exists'' err), fs)
             else (case WriteFile OS FileName ''[]'' fs of
                     (Some err2, fs1) \<Rightarrow> (Inl (Wrapped ''error creating file'' err2), fs1)
                   | (None, fs1) \<Rightarrow> readContents fs1)
         | None \<Rightarrow> readContents fs)"

definition FileByteStore_Set :: "'fs os \<Rightarrow> string \<Rightarrow> bytes \<Rightarrow> 'fs \<Rightarrow> error option \<times> 'fs" where
  "FileByteStore_Set OS FileName v fs = WriteFile OS FileName v fs"

text \<open>\<open>FileByteStore\<close> as an implementation of \<open>stringStore\<close>.\<close>

definition FileByteStore :: "'fs os \<Rightarrow> string \<Rightarrow> 'fs stringStore" where
  "FileByteStore OS FileName =
     \<lparr>Get = FileByteStore_Get OS FileName, Set = FileByteStore_Set OS FileName\<rparr>"

subsection \<open>KubeTokenCache\<close>

definition read :: "'tok externals \<Rightarrow> 's stringStore \<Rightarrow> 's \<Rightarrow> (error + 'tok storeRegister list) \<times> 's" where
  "read J c s =
     (case Get c s of
        (Inl err, s1) \<Rightarrow> (Inl err, s1)
      | (Inr contents, s1) \<Rightarrow>
          (case Unmarshal_store J contents of
             Inl err \<Rightarrow> (Inl DecodeError, s1)
           | Inr store \<Rightarrow> (Inr store, s1)))"

text \<open>The key test both loops make on a register.\<close>

definition hasKey :: "string \<Rightarrow> string \<Rightarrow> 'tok storeRegister \<Rightarrow> bool" where
  "hasKey contextName namespace r \<longleftrightarrow> ContextName r = contextName \<and> Namespace r = namespace"

text \<open>The cache key of a register.\<close>

definition keyOf :: "'tok storeRegister \<Rightarrow> string \<times> string" where
  "keyOf r = (ContextName r, Namespace r)"

text \<open>
  The loop of \<open>Get\<close>: it returns at the first register with the key. The error of
  \<open>json.MarshalIndent\<close> is dropped there (\<open>tokenString, _ :=\<close>), which leaves the nil
  slice, the empty string.
\<close>

fun Get_loop :: "'tok externals \<Rightarrow> instant \<Rightarrow> string \<Rightarrow> string \<Rightarrow> 'tok storeRegister list \<Rightarrow> string" where
  "Get_loop J now contextName namespace [] = ''''"
| "Get_loop J now contextName namespace (register # store) =
     (if ContextName register = contextName \<and> Namespace register = namespace
      then (if now < ExpirationTimestamp J (Token register)
            then (case MarshalIndent_token J (Token register) of
                    Inr tokenString \<Rightarrow> tokenString
                  | Inl err \<Rightarrow> '''')
            else '''')
      else Get_loop J now contextName namespace store)"

text \<open>\<open>KubeTokenCache.Get\<close>; \<open>now\<close> is what \<open>time.Now()\<close> returns during the call.\<close>

definition KubeTokenCache_Get ::
  "'tok externals \<Rightarrow> 's stringStore \<Rightarrow> instant \<Rightarrow> string \<Rightarrow> string \<Rightarrow> 's \<Rightarrow> (error + string) \<times> 's" where
  "KubeTokenCache_Get J c now contextName namespace s =
     (case read J c s of
        (Inl err, s1) \<Rightarrow> (Inl err, s1)
      | (Inr store, s1) \<Rightarrow> (Inr (Get_loop J now contextName namespace store), s1))"

text \<open>
  The loop of \<open>setWithErr\<close>, from index \<open>i\<close> on: it overwrites the token of
  \<open>store[i]\<close> in place when the register has the key and sets \<open>existed\<close>; it has no
  \<open>break\<close>, so it goes through every index.
\<close>

function setWithErr_loop ::
  "string \<Rightarrow> string \<Rightarrow> 'tok \<Rightarrow> nat \<Rightarrow> 'tok storeRegister list \<Rightarrow> bool
     \<Rightarrow> 'tok storeRegister list \<times> bool" where
  "setWithErr_loop contextName namespace token i store existed =
     (if i < length store
      then (let r = store ! i
            in if ContextName r = contextName \<and> Namespace r = namespace
               then setWithErr_loop contextName namespace token (i + 1)
                      (store[i := (store ! i)\<lparr>Token := token\<rparr>]) True
               else setWithErr_loop contextName namespace token (i + 1) store existed)
      else (store, existed))"
  by pat_completeness auto
termination
  by (relation "measure (\<lambda>(contextName, namespace, token, i, store, existed). length store - i)") auto

declare setWithErr_loop.simps [simp del]

text \<open>The sequence \<open>setWithErr\<close> encodes: the loop, then the \<open>append\<close> when nothing matched.\<close>

definition setWithErr_store ::
  "string \<Rightarrow> string \<Rightarrow> 'tok \<Rightarrow> 'tok storeRegister list \<Rightarrow> 'tok storeRegister list" where
  "setWithErr_store contextName namespace token store =
     (let (store1, existed) = setWithErr_loop contextName namespace token 0 store False
      in if \<not> existed
         then store1 @ [\<lparr>ContextName = contextName, Namespace = namespace, Token = token\<rparr>]
         else store1)"

definition setWithErr ::
  "'tok externals \<Rightarrow> 's stringStore \<Rightarrow> string \<Rightarrow> string \<Rightarrow> 'tok \<Rightarrow> 's \<Rightarrow> error option \<times> 's" where
  "setWithErr J c contextName namespace token s =
     (case read J c s of
        (Inl err, s1) \<Rightarrow> (Some err, s1)
      | (Inr store, s1) \<Rightarrow>
          (case MarshalIndent_store J (setWithErr_store contextName namespace token store) of
             Inl err \<Rightarrow> (Some err, s1)
           | Inr newStore \<Rightarrow> Set c newStore s1))"

text \<open>\<open>KubeTokenCache.Set\<close> drops the error of \<open>setWithErr\<close>.\<close>

definition KubeTokenCache_Set ::
  "'tok externals \<Rightarrow> 's stringStore \<Rightarrow> string \<Rightarrow> string \<Rightarrow> 'tok \<Rightarrow> 's \<Rightarrow> 's" where
  "KubeTokenCache_Set J c contextName namespace token s =
     snd (setWithErr J c contextName namespace token s)"

subsection \<open>KubeTokenClient\<close>

definition StatusUnauthorized :: int where
  "StatusUnauthorized = 401"

definition StatusOK :: int where
  "StatusOK = 200"

text \<open>
  An \<open>http.Response\<close> as \<open>GetKubeToken\<close> reads it: the status code, the status text, and
  what \<open>io.ReadAll(resp.Body)\<close> gives.
\<close>

record response =
  StatusCode :: int
  Status :: string
  Body :: "error + bytes"

text \<open>
  \<open>KubeTokenClient\<close>. \<open>httpClient_Get\<close> is \<open>httpClient.Get\<close>, from a URL to a transport error
  or a response; \<open>cache\<close> is the \<open>cacheSetter\<close>, whose \<open>Set\<close> returns nothing but the new
  state.
\<close>

record ('s, 'tok) KubeTokenClient =
  httpClient_Get :: "string \<Rightarrow> error + response"
  url :: string
  contextName :: string
  namespace :: string
  cache :: "string \<Rightarrow> string \<Rightarrow> 'tok \<Rightarrow> 's \<Rightarrow> 's"

definition GetKubeToken ::
  "'tok externals \<Rightarrow> ('s, 'tok) KubeTokenClient \<Rightarrow> 's \<Rightarrow> (error + string) \<times> 's" where
  "GetKubeToken J c s =
     (case httpClient_Get c (url c) of
        Inl err \<Rightarrow> (Inl (Wrapped ''failed GET request'' err), s)
      | Inr resp \<Rightarrow>
          if StatusCode resp = StatusUnauthorized then (Inl (ErrNotLogged (contextName c)), s)
          else if StatusCode resp \<noteq> StatusOK then (Inl (UnexpectedStatus (Status resp)), s)
          else (case Body resp of
                  Inl err \<Rightarrow> (Inl (Wrapped ''failed to read kubetoken response'' err), s)
                | Inr body \<Rightarrow>
                    (case Unmarshal_token J body of
                       Inl err \<Rightarrow>
                         (Inl (Wrapped ''failed to unmarshal kubetoken response'' err), s)
                     | Inr token \<Rightarrow>
                         (Inr body, cache c (contextName c) (namespace c) token s))))"

section \<open>What \<open>setWithErr\<close> writes\<close>

lemma setWithErr_loop_from:
  "i \<le> length store \<Longrightarrow>
   setWithErr_loop ctx ns tok i store existed =
     (take i store @ map (\<lambda>r. if hasKey ctx ns r then r\<lparr>Token := tok\<rparr> else r) (drop i store),
      existed \<or> (\<exists>r\<in>set (drop i store). hasKey ctx ns r))"
proof (induction ctx ns tok i store existed rule: setWithErr_loop.induct)
  case (1 ctx ns tok i store existed)
  let ?f = "\<lambda>r. if hasKey ctx ns r then r\<lparr>Token := tok\<rparr> else r"
  show ?case
  proof (cases "i < length store")
    case False
    with "1.prems" have e: "i = length store" by simp
    have "setWithErr_loop ctx ns tok i store existed = (store, existed)"
      using False by (simp add: setWithErr_loop.simps [of ctx ns tok i store existed])
    then show ?thesis
      using e by simp
  next
    case True
    then have d: "drop i store = store ! i # drop (Suc i) store"
      by (simp add: Cons_nth_drop_Suc)
    show ?thesis
    proof (cases "hasKey ctx ns (store ! i)")
      case k: True
      let ?store = "store[i := (store ! i)\<lparr>Token := tok\<rparr>]"
      have "setWithErr_loop ctx ns tok i store existed = setWithErr_loop ctx ns tok (i + 1) ?store True"
        using True k by (auto simp: setWithErr_loop.simps [of ctx ns tok i store existed] hasKey_def Let_def)
      also have "\<dots> = (take (i + 1) ?store @ map ?f (drop (i + 1) ?store),
                       True \<or> (\<exists>r\<in>set (drop (i + 1) ?store). hasKey ctx ns r))"
        using "1.IH"(1) [OF True refl] k True by (simp add: hasKey_def)
      also have "take (i + 1) ?store = take i store @ [(store ! i)\<lparr>Token := tok\<rparr>]"
        using True by (simp add: take_Suc_conv_app_nth)
      also have "drop (i + 1) ?store = drop (Suc i) store"
        by simp
      finally show ?thesis
        using k by (simp add: d)
    next
      case k: False
      have "setWithErr_loop ctx ns tok i store existed = setWithErr_loop ctx ns tok (i + 1) store existed"
        using True k by (auto simp: setWithErr_loop.simps [of ctx ns tok i store existed] hasKey_def Let_def)
      also have "\<dots> = (take (i + 1) store @ map ?f (drop (i + 1) store),
                       existed \<or> (\<exists>r\<in>set (drop (i + 1) store). hasKey ctx ns r))"
        using "1.IH"(2) [OF True refl] k True by (simp add: hasKey_def)
      also have "take (i + 1) store = take i store @ [store ! i]"
        using True by (simp add: take_Suc_conv_app_nth)
      finally show ?thesis
        using k by (simp add: d)
    qed
  qed
qed

lemma setWithErr_loop_fst:
  "fst (setWithErr_loop ctx ns tok 0 store False) =
     map (\<lambda>r. if hasKey ctx ns r then r\<lparr>Token := tok\<rparr> else r) store"
  by (simp add: setWithErr_loop_from)

lemma setWithErr_loop_snd:
  "snd (setWithErr_loop ctx ns tok 0 store False) \<longleftrightarrow> (\<exists>r\<in>set store. hasKey ctx ns r)"
  by (simp add: setWithErr_loop_from)

lemma setWithErr_store_eq:
  "setWithErr_store ctx ns tok store =
     (if \<exists>r\<in>set store. hasKey ctx ns r
      then map (\<lambda>r. if hasKey ctx ns r then r\<lparr>Token := tok\<rparr> else r) store
      else store @ [\<lparr>ContextName = ctx, Namespace = ns, Token = tok\<rparr>])"
proof -
  obtain store1 existed where l: "setWithErr_loop ctx ns tok 0 store False = (store1, existed)"
    by (cases "setWithErr_loop ctx ns tok 0 store False")
  have f: "store1 = map (\<lambda>r. if hasKey ctx ns r then r\<lparr>Token := tok\<rparr> else r) store"
    using setWithErr_loop_fst [of ctx ns tok store] l by simp
  have e: "existed \<longleftrightarrow> (\<exists>r\<in>set store. hasKey ctx ns r)"
    using setWithErr_loop_snd [of ctx ns tok store] l by simp
  have n: "\<not> existed \<Longrightarrow> store1 = store"
    unfolding f using e by (simp add: map_idI)
  show ?thesis
    using f e n by (auto simp: setWithErr_store_def l)
qed

lemma hasKey_keyOf: "hasKey ctx ns r \<longleftrightarrow> keyOf r = (ctx, ns)"
  by (auto simp: hasKey_def keyOf_def)

lemma keyOf_setWithErr_store:
  "map keyOf (setWithErr_store ctx ns tok store) =
     (if (ctx, ns) \<in> set (map keyOf store) then map keyOf store else map keyOf store @ [(ctx, ns)])"
  by (auto simp: setWithErr_store_eq hasKey_keyOf keyOf_def)

lemma distinct_setWithErr_store:
  "distinct (map keyOf store) \<Longrightarrow> distinct (map keyOf (setWithErr_store ctx ns tok store))"
  unfolding keyOf_setWithErr_store by auto

lemma one_hasKey:
  "distinct (map keyOf store) \<Longrightarrow> (ctx, ns) \<in> set (map keyOf store) \<Longrightarrow>
   length (filter (hasKey ctx ns) store) = 1"
proof (induction store)
  case Nil
  then show ?case by simp
next
  case (Cons r store)
  show ?case
  proof (cases "hasKey ctx ns r")
    case True
    then have "(ctx, ns) \<notin> set (map keyOf store)"
      using Cons.prems(1) by (simp add: hasKey_keyOf)
    then have "\<forall>x\<in>set store. keyOf x \<noteq> (ctx, ns)"
      by (simp add: image_iff) metis
    then have "filter (hasKey ctx ns) store = []"
      by (simp add: filter_empty_conv hasKey_keyOf)
    with True show ?thesis by simp
  next
    case False
    then show ?thesis
      using Cons by (auto simp: hasKey_keyOf)
  qed
qed

lemma one_setWithErr_store:
  assumes "distinct (map keyOf store)"
  shows "length (filter (hasKey ctx ns) (setWithErr_store ctx ns tok store)) = 1"
proof -
  have d: "distinct (map keyOf (setWithErr_store ctx ns tok store))"
    using assms by (rule distinct_setWithErr_store)
  have m: "(ctx, ns) \<in> set (map keyOf (setWithErr_store ctx ns tok store))"
    unfolding keyOf_setWithErr_store by auto
  show ?thesis
    using d m by (rule one_hasKey)
qed

lemma token_setWithErr_store:
  assumes "r \<in> set (setWithErr_store ctx ns tok store)" and "hasKey ctx ns r"
  shows "Token r = tok"
proof (cases "\<exists>x\<in>set store. hasKey ctx ns x")
  case True
  then have "r \<in> set (map (\<lambda>r. if hasKey ctx ns r then r\<lparr>Token := tok\<rparr> else r) store)"
    using assms(1) by (simp only: setWithErr_store_eq if_True)
  then obtain x where "r = (if hasKey ctx ns x then x\<lparr>Token := tok\<rparr> else x)"
    unfolding set_map by (rule imageE)
  then show ?thesis
    using assms(2) by (cases "hasKey ctx ns x") simp_all
next
  case False
  then have "r \<in> set (store @ [\<lparr>ContextName = ctx, Namespace = ns, Token = tok\<rparr>])"
    using assms(1) by (simp only: setWithErr_store_eq if_False)
  then show ?thesis
    using False assms(2) by auto
qed

lemma others_setWithErr_store:
  "filter (\<lambda>r. \<not> hasKey ctx ns r) (setWithErr_store ctx ns tok store) =
   filter (\<lambda>r. \<not> hasKey ctx ns r) store"
proof -
  have "filter (\<lambda>r. \<not> hasKey ctx ns r) (map (\<lambda>r. if hasKey ctx ns r then r\<lparr>Token := tok\<rparr> else r) xs)
        = filter (\<lambda>r. \<not> hasKey ctx ns r) xs" for xs
    by (induction xs) (auto simp: hasKey_def)
  then show ?thesis
    by (simp add: setWithErr_store_eq hasKey_def)
qed

lemma inplace_setWithErr_store:
  assumes d: "distinct (map keyOf store)" and i: "i < length store" and k: "hasKey ctx ns (store ! i)"
  shows "setWithErr_store ctx ns tok store = store[i := (store ! i)\<lparr>Token := tok\<rparr>]"
proof -
  have ex: "\<exists>r\<in>set store. hasKey ctx ns r"
    using i k nth_mem by blast
  have only: "j = i" if "j < length store" "hasKey ctx ns (store ! j)" for j
  proof -
    have "map keyOf store ! j = map keyOf store ! i"
      using that i k by (simp add: hasKey_keyOf)
    moreover have "j < length (map keyOf store)" "i < length (map keyOf store)"
      using that(1) i by simp_all
    ultimately show ?thesis
      using nth_eq_iff_index_eq [OF d, of j i] by simp
  qed
  have "map (\<lambda>r. if hasKey ctx ns r then r\<lparr>Token := tok\<rparr> else r) store
          = store[i := (store ! i)\<lparr>Token := tok\<rparr>]"
  proof (rule nth_equalityI)
    show "length (map (\<lambda>r. if hasKey ctx ns r then r\<lparr>Token := tok\<rparr> else r) store)
            = length (store[i := (store ! i)\<lparr>Token := tok\<rparr>])"
      by simp
  next
    fix j
    assume "j < length (map (\<lambda>r. if hasKey ctx ns r then r\<lparr>Token := tok\<rparr> else r) store)"
    then have j: "j < length store" by simp
    show "map (\<lambda>r. if hasKey ctx ns r then r\<lparr>Token := tok\<rparr> else r) store ! j
            = store[i := (store ! i)\<lparr>Token := tok\<rparr>] ! j"
    proof (cases "j = i")
      case True
      then show ?thesis using i k by simp
    next
      case False
      then have "\<not> hasKey ctx ns (store ! j)"
        using only [OF j] by blast
      then show ?thesis using False j by simp
    qed
  qed
  then show ?thesis
    unfolding setWithErr_store_eq using ex by simp
qed

lemma append_setWithErr_store:
  "\<forall>r\<in>set store. \<not> hasKey ctx ns r \<Longrightarrow>
   setWithErr_store ctx ns tok store = store @ [\<lparr>ContextName = ctx, Namespace = ns, Token = tok\<rparr>]"
  by (simp add: setWithErr_store_eq)

lemma idem_setWithErr_store:
  "setWithErr_store ctx ns tok (setWithErr_store ctx ns tok store) = setWithErr_store ctx ns tok store"
proof -
  let ?f = "\<lambda>r. if hasKey ctx ns r then r\<lparr>Token := tok\<rparr> else r"
  let ?new = "setWithErr_store ctx ns tok store"
  have k: "(ctx, ns) \<in> set (map keyOf ?new)"
    unfolding keyOf_setWithErr_store by simp
  have ex: "\<exists>r\<in>set ?new. hasKey ctx ns r"
  proof -
    from k obtain r where "r \<in> set ?new" "keyOf r = (ctx, ns)"
      by auto
    then show ?thesis
      by (auto simp: hasKey_keyOf)
  qed
  have "?f r = r" if "r \<in> set ?new" for r
    using token_setWithErr_store [OF that] by (cases "hasKey ctx ns r") simp_all
  then have "map ?f ?new = ?new"
    by (simp add: map_idI)
  moreover have "setWithErr_store ctx ns tok ?new = map ?f ?new"
    using ex by (simp only: setWithErr_store_eq [of ctx ns tok ?new] if_True)
  ultimately show ?thesis by simp
qed

lemma setWithErr_success:
  assumes "read J c s = (Inr store, s1)" and "setWithErr J c ctx ns tok s = (None, s2)"
  shows "\<exists>newStore. MarshalIndent_store J (setWithErr_store ctx ns tok store) = Inr newStore
           \<and> Set c newStore s1 = (None, s2)"
  using assms by (auto simp: setWithErr_def split: sum.splits)

text \<open>
  Claim C1. Let the store decode to a sequence \<open>store\<close> with at most one register per key,
  and let \<open>setWithErr contextName namespace token\<close> succeed. Then what it hands to the
  byte store, which takes it, is the encoding of a sequence \<open>new\<close> in which exactly one
  register has the key, and that register carries the given token. If \<open>store\<close> had the key
  at index \<open>i\<close>, \<open>new\<close> is \<open>store\<close> with the token at index \<open>i\<close> replaced; if it had not,
  \<open>new\<close> is \<open>store\<close> with the new register appended. The registers of every other key
  are the same, in the same order. \<open>new\<close> has again at most one register per key, and
  writing the same key and token to it gives \<open>new\<close> itself: a second successful write
  from a state that decodes to \<open>new\<close> persists the encoding of \<open>new\<close> once more.
\<close>

theorem setWithErr_upsert:
  assumes "distinct (map keyOf store)"
    and "read J c s = (Inr store, s1)"
    and "setWithErr J c ctx ns tok s = (None, s2)"
  shows "\<exists>new newStore.
           new = setWithErr_store ctx ns tok store
         \<and> MarshalIndent_store J new = Inr newStore \<and> Set c newStore s1 = (None, s2)
         \<and> length (filter (hasKey ctx ns) new) = 1
         \<and> (\<forall>r\<in>set new. hasKey ctx ns r \<longrightarrow> Token r = tok)
         \<and> (\<forall>i<length store. hasKey ctx ns (store ! i) \<longrightarrow>
               new = store[i := (store ! i)\<lparr>Token := tok\<rparr>])
         \<and> ((\<forall>r\<in>set store. \<not> hasKey ctx ns r) \<longrightarrow>
               new = store @ [\<lparr>ContextName = ctx, Namespace = ns, Token = tok\<rparr>])
         \<and> filter (\<lambda>r. \<not> hasKey ctx ns r) new = filter (\<lambda>r. \<not> hasKey ctx ns r) store
         \<and> distinct (map keyOf new)
         \<and> setWithErr_store ctx ns tok new = new
         \<and> (\<forall>s3 s4. read J c s2 = (Inr new, s3) \<and> setWithErr J c ctx ns tok s2 = (None, s4) \<longrightarrow>
               Set c newStore s3 = (None, s4))"
proof -
  let ?new = "setWithErr_store ctx ns tok store"
  obtain newStore where w: "MarshalIndent_store J ?new = Inr newStore"
      "Set c newStore s1 = (None, s2)"
    using setWithErr_success [OF assms(2,3)] by blast
  have again: "Set c newStore s3 = (None, s4)"
    if "read J c s2 = (Inr ?new, s3)" "setWithErr J c ctx ns tok s2 = (None, s4)" for s3 s4
    using setWithErr_success [OF that] w(1) by (simp add: idem_setWithErr_store)
  have one: "length (filter (hasKey ctx ns) ?new) = 1"
    using assms(1) by (rule one_setWithErr_store)
  have tk: "\<forall>r\<in>set ?new. hasKey ctx ns r \<longrightarrow> Token r = tok"
    by (auto dest: token_setWithErr_store)
  have inplace: "\<forall>i<length store. hasKey ctx ns (store ! i) \<longrightarrow>
                   ?new = store[i := (store ! i)\<lparr>Token := tok\<rparr>]"
    by (auto dest: inplace_setWithErr_store [OF assms(1)])
  have app: "(\<forall>r\<in>set store. \<not> hasKey ctx ns r) \<longrightarrow>
               ?new = store @ [\<lparr>ContextName = ctx, Namespace = ns, Token = tok\<rparr>]"
    by (auto dest: append_setWithErr_store)
  have dist: "distinct (map keyOf ?new)"
    using assms(1) by (rule distinct_setWithErr_store)
  show ?thesis
    using w one tk inplace app dist again others_setWithErr_store [of ctx ns tok store]
      idem_setWithErr_store [of ctx ns tok store]
    by blast
qed

text \<open>
  An instance: an in-memory store that holds \<open>old\<close>, which decodes to a register of
  another context followed by one for \<open>(ctx1, ns1)\<close>; writing token \<open>7\<close> for \<open>(ctx1, ns1)\<close>
  replaces the second register's token where it stands.
\<close>

theorem setWithErr_upsert_witness:
  "setWithErr
     \<lparr>ExpirationTimestamp = (\<lambda>t. t),
      Unmarshal_store = (\<lambda>b.
        if b = ''old''
        then Inr [\<lparr>ContextName = ''ctxB'', Namespace = ''ns1'', Token = 1\<rparr>,
                   \<lparr>ContextName = ''ctx1'', Namespace = ''ns1'', Token = 2\<rparr>]
        else Inl (ExternalError ''json'')),
      MarshalIndent_store = (\<lambda>st.
        if st = [\<lparr>ContextName = ''ctxB'', Namespace = ''ns1'', Token = 1\<rparr>,
                 \<lparr>ContextName = ''ctx1'', Namespace = ''ns1'', Token = 7\<rparr>]
        then Inr ''new'' else Inl (ExternalError ''json'')),
      Unmarshal_token = (\<lambda>b. Inl (ExternalError ''json'')),
      MarshalIndent_token = (\<lambda>t. Inl (ExternalError ''json''))\<rparr>
     \<lparr>Get = (\<lambda>s. (Inr s, s)), Set = (\<lambda>b s. (None, b))\<rparr>
     ''ctx1'' ''ns1'' (7::int) ''old'' = (None, ''new'')
   \<and> setWithErr_store ''ctx1'' ''ns1'' (7::int)
       [\<lparr>ContextName = ''ctxB'', Namespace = ''ns1'', Token = 1\<rparr>,
        \<lparr>ContextName = ''ctx1'', Namespace = ''ns1'', Token = 2\<rparr>]
     = [\<lparr>ContextName = ''ctxB'', Namespace = ''ns1'', Token = 1\<rparr>,
        \<lparr>ContextName = ''ctx1'', Namespace = ''ns1'', Token = 2\<rparr>]
         [1 := \<lparr>ContextName = ''ctx1'', Namespace = ''ns1'', Token = 7\<rparr>]
   \<and> length (filter (hasKey ''ctx1'' ''ns1'')
       (setWithErr_store ''ctx1'' ''ns1'' (7::int)
         [\<lparr>ContextName = ''ctxB'', Namespace = ''ns1'', Token = 1\<rparr>,
          \<lparr>ContextName = ''ctx1'', Namespace = ''ns1'', Token = 2\<rparr>])) = 1"
proof -
  let ?J = "\<lparr>ExpirationTimestamp = (\<lambda>t. t),
      Unmarshal_store = (\<lambda>b.
        if b = ''old''
        then Inr [\<lparr>ContextName = ''ctxB'', Namespace = ''ns1'', Token = 1\<rparr>,
                   \<lparr>ContextName = ''ctx1'', Namespace = ''ns1'', Token = 2\<rparr>]
        else Inl (ExternalError ''json'')),
      MarshalIndent_store = (\<lambda>st.
        if st = [\<lparr>ContextName = ''ctxB'', Namespace = ''ns1'', Token = 1\<rparr>,
                 \<lparr>ContextName = ''ctx1'', Namespace = ''ns1'', Token = 7\<rparr>]
        then Inr ''new'' else Inl (ExternalError ''json'')),
      Unmarshal_token = (\<lambda>b. Inl (ExternalError ''json'')),
      MarshalIndent_token = (\<lambda>t. Inl (ExternalError ''json''))\<rparr> :: int externals"
  let ?c = "\<lparr>Get = (\<lambda>s. (Inr s, s)), Set = (\<lambda>b s. (None, b))\<rparr> :: string stringStore"
  let ?store = "[\<lparr>ContextName = ''ctxB'', Namespace = ''ns1'', Token = 1\<rparr>,
                 \<lparr>ContextName = ''ctx1'', Namespace = ''ns1'', Token = 2\<rparr>] :: int storeRegister list"
  have d: "distinct (map keyOf ?store)"
    by (simp add: keyOf_def)
  have r: "read ?J ?c ''old'' = (Inr ?store, ''old'')"
    by (simp add: read_def)
  have st: "setWithErr_store ''ctx1'' ''ns1'' (7::int) ?store
              = [\<lparr>ContextName = ''ctxB'', Namespace = ''ns1'', Token = 1\<rparr>,
                 \<lparr>ContextName = ''ctx1'', Namespace = ''ns1'', Token = 7\<rparr>]"
    by (simp add: setWithErr_store_def setWithErr_loop.simps)
  have w: "setWithErr ?J ?c ''ctx1'' ''ns1'' 7 ''old'' = (None, ''new'')"
    by (simp add: setWithErr_def r st)
  have k: "hasKey ''ctx1'' ''ns1'' (?store ! 1)"
    by (simp add: hasKey_def)
  from setWithErr_upsert [OF d r w] k have
    "setWithErr_store ''ctx1'' ''ns1'' 7 ?store = ?store[1 := (?store ! 1)\<lparr>Token := 7\<rparr>]"
    "length (filter (hasKey ''ctx1'' ''ns1'') (setWithErr_store ''ctx1'' ''ns1'' 7 ?store)) = 1"
    by auto
  with w show ?thesis by simp
qed

section \<open>What \<open>Get\<close> returns and leaves behind\<close>

lemma Get_loop_append:
  "\<forall>r\<in>set pre. \<not> hasKey ctx ns r \<Longrightarrow>
   Get_loop J now ctx ns (pre @ rest) = Get_loop J now ctx ns rest"
  by (induction pre) (auto simp: hasKey_def)

lemma Get_loop_hit:
  "hasKey ctx ns e \<Longrightarrow>
   Get_loop J now ctx ns (e # rest) =
     (if now < ExpirationTimestamp J (Token e)
      then (case MarshalIndent_token J (Token e) of Inr tokenString \<Rightarrow> tokenString | Inl err \<Rightarrow> '''')
      else '''')"
  by (simp add: hasKey_def)

lemma Get_loop_find:
  "Get_loop J now ctx ns store =
     (case find (hasKey ctx ns) store of
        None \<Rightarrow> ''''
      | Some r \<Rightarrow>
          if now < ExpirationTimestamp J (Token r)
          then (case MarshalIndent_token J (Token r) of Inr tokenString \<Rightarrow> tokenString | Inl err \<Rightarrow> '''')
          else '''')"
  by (induction store) (simp_all add: hasKey_def)

lemma KubeTokenCache_Get_read:
  "read J c s = (Inr store, s1) \<Longrightarrow>
   KubeTokenCache_Get J c now ctx ns s = (Inr (Get_loop J now ctx ns store), s1)"
  by (simp add: KubeTokenCache_Get_def)

text \<open>
  Claim C3. Let the store decode to \<open>store\<close> and let \<open>r\<close> be its first register with the
  queried key. \<open>Get\<close> returns the token of \<open>r\<close>, encoded, when the expiration of that
  token is strictly after \<open>now\<close>; when the expiration is at or before \<open>now\<close>, and so when
  it is exactly \<open>now\<close>, \<open>Get\<close> returns the empty string and no error.
\<close>

theorem Get_expiration:
  assumes "read J c s = (Inr store, s1)" and "find (hasKey ctx ns) store = Some r"
  shows "(now < ExpirationTimestamp J (Token r) \<longrightarrow>
            KubeTokenCache_Get J c now ctx ns s =
              (Inr (case MarshalIndent_token J (Token r) of
                      Inr tokenString \<Rightarrow> tokenString | Inl err \<Rightarrow> ''''), s1))
       \<and> (ExpirationTimestamp J (Token r) \<le> now \<longrightarrow>
            KubeTokenCache_Get J c now ctx ns s = (Inr '''', s1))
       \<and> (ExpirationTimestamp J (Token r) = now \<longrightarrow>
            KubeTokenCache_Get J c now ctx ns s = (Inr '''', s1))"
  using assms by (simp add: KubeTokenCache_Get_read Get_loop_find)

theorem Get_expiration_witness:
  "KubeTokenCache_Get
     \<lparr>ExpirationTimestamp = (\<lambda>t. t),
      Unmarshal_store = (\<lambda>b.
        if b = ''S'' then Inr [\<lparr>ContextName = ''ctx1'', Namespace = ''ns1'', Token = 100\<rparr>]
        else Inl (ExternalError ''json'')),
      MarshalIndent_store = (\<lambda>st. Inl (ExternalError ''json'')),
      Unmarshal_token = (\<lambda>b. Inl (ExternalError ''json'')),
      MarshalIndent_token = (\<lambda>t. Inr ''tok'')\<rparr>
     \<lparr>Get = (\<lambda>s. (Inr s, s)), Set = (\<lambda>b s. (None, b))\<rparr>
     100 ''ctx1'' ''ns1'' ''S'' = (Inr '''', ''S'')
   \<and> KubeTokenCache_Get
     \<lparr>ExpirationTimestamp = (\<lambda>t. t),
      Unmarshal_store = (\<lambda>b.
        if b = ''S'' then Inr [\<lparr>ContextName = ''ctx1'', Namespace = ''ns1'', Token = 100\<rparr>]
        else Inl (ExternalError ''json'')),
      MarshalIndent_store = (\<lambda>st. Inl (ExternalError ''json'')),
      Unmarshal_token = (\<lambda>b. Inl (ExternalError ''json'')),
      MarshalIndent_token = (\<lambda>t. Inr ''tok'')\<rparr>
     \<lparr>Get = (\<lambda>s. (Inr s, s)), Set = (\<lambda>b s. (None, b))\<rparr>
     99 ''ctx1'' ''ns1'' ''S'' = (Inr ''tok'', ''S'')"
proof -
  let ?J = "\<lparr>ExpirationTimestamp = (\<lambda>t. t),
      Unmarshal_store = (\<lambda>b.
        if b = ''S'' then Inr [\<lparr>ContextName = ''ctx1'', Namespace = ''ns1'', Token = 100\<rparr>]
        else Inl (ExternalError ''json'')),
      MarshalIndent_store = (\<lambda>st. Inl (ExternalError ''json'')),
      Unmarshal_token = (\<lambda>b. Inl (ExternalError ''json'')),
      MarshalIndent_token = (\<lambda>t. Inr ''tok'')\<rparr> :: int externals"
  let ?c = "\<lparr>Get = (\<lambda>s. (Inr s, s)), Set = (\<lambda>b s. (None, b))\<rparr> :: string stringStore"
  let ?r = "\<lparr>ContextName = ''ctx1'', Namespace = ''ns1'', Token = 100\<rparr> :: int storeRegister"
  have r: "read ?J ?c ''S'' = (Inr [?r], ''S'')"
    by (simp add: read_def)
  have f: "find (hasKey ''ctx1'' ''ns1'') [?r] = Some ?r"
    by (simp add: hasKey_def)
  show ?thesis
    using Get_expiration [OF r f, of 100] Get_expiration [OF r f, of 99] by simp
qed

text \<open>
  Claim C10. Let the store decode to \<open>pre @ e1 # rest\<close>, where no register of \<open>pre\<close> has
  the queried key and \<open>e1\<close> has it. Then the result of \<open>Get\<close> is read off \<open>e1\<close> alone,
  whatever \<open>rest\<close> holds: when \<open>e1\<close> is expired, \<open>Get\<close> returns the empty string and no
  error even if \<open>rest\<close> has a register \<open>e2\<close> with the same key whose expiration is strictly
  after \<open>now\<close>.
\<close>

theorem Get_first_match:
  assumes "read J c s = (Inr (pre @ e1 # rest), s1)"
    and "\<forall>r\<in>set pre. \<not> hasKey ctx ns r"
    and "hasKey ctx ns e1"
  shows "KubeTokenCache_Get J c now ctx ns s =
           (Inr (if now < ExpirationTimestamp J (Token e1)
                 then (case MarshalIndent_token J (Token e1) of
                         Inr tokenString \<Rightarrow> tokenString | Inl err \<Rightarrow> '''')
                 else ''''), s1)
       \<and> (ExpirationTimestamp J (Token e1) \<le> now \<longrightarrow>
            (\<forall>e2\<in>set rest. hasKey ctx ns e2 \<and> now < ExpirationTimestamp J (Token e2) \<longrightarrow>
               KubeTokenCache_Get J c now ctx ns s = (Inr '''', s1)))"
proof -
  have "Get_loop J now ctx ns (pre @ e1 # rest) = Get_loop J now ctx ns (e1 # rest)"
    using assms(2) by (rule Get_loop_append)
  then have "KubeTokenCache_Get J c now ctx ns s = (Inr (Get_loop J now ctx ns (e1 # rest)), s1)"
    using KubeTokenCache_Get_read [OF assms(1)] by simp
  then show ?thesis
    unfolding Get_loop_hit [OF assms(3)] by simp
qed

theorem Get_first_match_witness:
  "KubeTokenCache_Get
     \<lparr>ExpirationTimestamp = (\<lambda>t. t),
      Unmarshal_store = (\<lambda>b.
        if b = ''S''
        then Inr [\<lparr>ContextName = ''ctxB'', Namespace = ''ns1'', Token = 500\<rparr>,
                   \<lparr>ContextName = ''ctx1'', Namespace = ''ns1'', Token = 50\<rparr>,
                   \<lparr>ContextName = ''ctx1'', Namespace = ''ns1'', Token = 500\<rparr>]
        else Inl (ExternalError ''json'')),
      MarshalIndent_store = (\<lambda>st. Inl (ExternalError ''json'')),
      Unmarshal_token = (\<lambda>b. Inl (ExternalError ''json'')),
      MarshalIndent_token = (\<lambda>t. Inr ''tok'')\<rparr>
     \<lparr>Get = (\<lambda>s. (Inr s, s)), Set = (\<lambda>b s. (None, b))\<rparr>
     100 ''ctx1'' ''ns1'' ''S'' = (Inr '''', ''S'')"
proof -
  let ?J = "\<lparr>ExpirationTimestamp = (\<lambda>t. t),
      Unmarshal_store = (\<lambda>b.
        if b = ''S''
        then Inr [\<lparr>ContextName = ''ctxB'', Namespace = ''ns1'', Token = 500\<rparr>,
                   \<lparr>ContextName = ''ctx1'', Namespace = ''ns1'', Token = 50\<rparr>,
                   \<lparr>ContextName = ''ctx1'', Namespace = ''ns1'', Token = 500\<rparr>]
        else Inl (ExternalError ''json'')),
      MarshalIndent_store = (\<lambda>st. Inl (ExternalError ''json'')),
      Unmarshal_token = (\<lambda>b. Inl (ExternalError ''json'')),
      MarshalIndent_token = (\<lambda>t. Inr ''tok'')\<rparr> :: int externals"
  let ?c = "\<lparr>Get = (\<lambda>s. (Inr s, s)), Set = (\<lambda>b s. (None, b))\<rparr> :: string stringStore"
  let ?pre = "[\<lparr>ContextName = ''ctxB'', Namespace = ''ns1'', Token = 500\<rparr>] :: int storeRegister list"
  let ?e1 = "\<lparr>ContextName = ''ctx1'', Namespace = ''ns1'', Token = 50\<rparr> :: int storeRegister"
  let ?e2 = "\<lparr>ContextName = ''ctx1'', Namespace = ''ns1'', Token = 500\<rparr> :: int storeRegister"
  have r: "read ?J ?c ''S'' = (Inr (?pre @ ?e1 # [?e2]), ''S'')"
    by (simp add: read_def)
  have p: "\<forall>r\<in>set ?pre. \<not> hasKey ''ctx1'' ''ns1'' r"
    by (simp add: hasKey_def)
  have k: "hasKey ''ctx1'' ''ns1'' ?e1" "hasKey ''ctx1'' ''ns1'' ?e2"
    by (simp_all add: hasKey_def)
  show ?thesis
    using Get_first_match [OF r p k(1), of 100] k(2) by simp
qed

text \<open>
  Claim C6. Let the byte store return \<open>contents\<close> that the decoder rejects. Then \<open>Get\<close> and
  \<open>setWithErr\<close> both fail with the decode error, and the store is in the state its own
  \<open>Get\<close> left it in: \<open>setWithErr\<close> gives the same result whatever \<open>Set\<close> of the byte store
  is, so \<open>Set\<close> is not called and nothing is reset or repaired.
\<close>

theorem corrupt_store:
  assumes "Get c s = (Inr contents, s1)" and "Unmarshal_store J contents = Inl err"
  shows "KubeTokenCache_Get J c now ctx ns s = (Inl DecodeError, s1)
       \<and> setWithErr J c ctx ns tok s = (Some DecodeError, s1)
       \<and> (\<forall>f. setWithErr J (c\<lparr>Set := f\<rparr>) ctx ns tok s = (Some DecodeError, s1))"
  using assms by (simp add: KubeTokenCache_Get_def setWithErr_def read_def)

theorem corrupt_store_witness:
  "KubeTokenCache_Get
     \<lparr>ExpirationTimestamp = (\<lambda>t. t),
      Unmarshal_store = (\<lambda>b. if b = ''[]'' then Inr [] else Inl (ExternalError ''json'')),
      MarshalIndent_store = (\<lambda>st. Inr ''S''),
      Unmarshal_token = (\<lambda>b. Inl (ExternalError ''json'')),
      MarshalIndent_token = (\<lambda>t. Inr ''tok'')\<rparr>
     \<lparr>Get = (\<lambda>s. (Inr s, s)), Set = (\<lambda>b s. (None, b))\<rparr>
     100 ''ctx1'' ''ns1'' ''garbage'' = (Inl DecodeError, ''garbage'')
   \<and> setWithErr
     \<lparr>ExpirationTimestamp = (\<lambda>t. t),
      Unmarshal_store = (\<lambda>b. if b = ''[]'' then Inr [] else Inl (ExternalError ''json'')),
      MarshalIndent_store = (\<lambda>st. Inr ''S''),
      Unmarshal_token = (\<lambda>b. Inl (ExternalError ''json'')),
      MarshalIndent_token = (\<lambda>t. Inr ''tok'')\<rparr>
     \<lparr>Get = (\<lambda>s. (Inr s, s)), Set = (\<lambda>b s. (None, b))\<rparr>
     ''ctx1'' ''ns1'' (500::int) ''garbage'' = (Some DecodeError, ''garbage'')"
proof -
  let ?J = "\<lparr>ExpirationTimestamp = (\<lambda>t. t),
      Unmarshal_store = (\<lambda>b. if b = ''[]'' then Inr [] else Inl (ExternalError ''json'')),
      MarshalIndent_store = (\<lambda>st. Inr ''S''),
      Unmarshal_token = (\<lambda>b. Inl (ExternalError ''json'')),
      MarshalIndent_token = (\<lambda>t. Inr ''tok'')\<rparr> :: int externals"
  let ?c = "\<lparr>Get = (\<lambda>s. (Inr s, s)), Set = (\<lambda>b s. (None, b))\<rparr> :: string stringStore"
  have g: "Get ?c ''garbage'' = (Inr ''garbage'', ''garbage'')"
    by simp
  have u: "Unmarshal_store ?J ''garbage'' = Inl (ExternalError ''json'')"
    by simp
  show ?thesis
    using corrupt_store [OF g u, of 100 "''ctx1''" "''ns1''" 500] by simp
qed

text \<open>
  Claim C7. For every input, \<open>Get\<close> of the cache gives the same result and the same final
  state whatever \<open>Set\<close> of the byte store is, so it never calls it; and its final state is
  the one the byte store's own \<open>Get\<close> returns. This holds on every path. So if the byte
  store's \<open>Get\<close> leaves the state alone, the store decodes afterwards to the sequence it
  decoded to before; in particular, if the first register with the queried key is
  expired, \<open>Get\<close> returns the empty string with no error and the store afterwards
  decodes to the same sequence, the expired register included.
\<close>

theorem Get_frame:
  "KubeTokenCache_Get J (c\<lparr>Set := f\<rparr>) now ctx ns s = KubeTokenCache_Get J c now ctx ns s
   \<and> snd (KubeTokenCache_Get J c now ctx ns s) = snd (Get c s)
   \<and> (\<forall>store. read J c s = (Inr store, s) \<longrightarrow>
        read J c (snd (KubeTokenCache_Get J c now ctx ns s)) = (Inr store, s))
   \<and> (\<forall>store r. read J c s = (Inr store, s) \<and> find (hasKey ctx ns) store = Some r
          \<and> ExpirationTimestamp J (Token r) \<le> now \<longrightarrow>
        KubeTokenCache_Get J c now ctx ns s = (Inr '''', s)
        \<and> read J c (snd (KubeTokenCache_Get J c now ctx ns s)) = (Inr store, s))"
proof (intro conjI allI impI)
  have "read J (c\<lparr>Set := f\<rparr>) s = read J c s"
    by (simp add: read_def)
  then show "KubeTokenCache_Get J (c\<lparr>Set := f\<rparr>) now ctx ns s = KubeTokenCache_Get J c now ctx ns s"
    by (simp add: KubeTokenCache_Get_def)
next
  have "snd (read J c s) = snd (Get c s)"
    by (simp add: read_def split: prod.splits sum.splits)
  moreover have "snd (KubeTokenCache_Get J c now ctx ns s) = snd (read J c s)"
    by (cases "read J c s") (simp add: KubeTokenCache_Get_def split: sum.splits)
  ultimately show "snd (KubeTokenCache_Get J c now ctx ns s) = snd (Get c s)"
    by simp
next
  fix store
  assume "read J c s = (Inr store, s)"
  then show "read J c (snd (KubeTokenCache_Get J c now ctx ns s)) = (Inr store, s)"
    by (simp add: KubeTokenCache_Get_read)
next
  fix store r
  assume h: "read J c s = (Inr store, s) \<and> find (hasKey ctx ns) store = Some r
          \<and> ExpirationTimestamp J (Token r) \<le> now"
  then have g: "KubeTokenCache_Get J c now ctx ns s = (Inr (Get_loop J now ctx ns store), s)"
    by (simp add: KubeTokenCache_Get_read)
  moreover have "Get_loop J now ctx ns store = ''''"
    using h by (simp add: Get_loop_find)
  ultimately show "KubeTokenCache_Get J c now ctx ns s = (Inr '''', s)"
    by simp
  show "read J c (snd (KubeTokenCache_Get J c now ctx ns s)) = (Inr store, s)"
    using g h by simp
qed

theorem Get_frame_witness:
  "KubeTokenCache_Get
     \<lparr>ExpirationTimestamp = (\<lambda>t. t),
      Unmarshal_store = (\<lambda>b.
        if b = ''S'' then Inr [\<lparr>ContextName = ''ctx1'', Namespace = ''ns1'', Token = 40\<rparr>]
        else Inl (ExternalError ''json'')),
      MarshalIndent_store = (\<lambda>st. Inl (ExternalError ''json'')),
      Unmarshal_token = (\<lambda>b. Inl (ExternalError ''json'')),
      MarshalIndent_token = (\<lambda>t. Inr ''tok'')\<rparr>
     \<lparr>Get = (\<lambda>s. (Inr s, s)), Set = (\<lambda>b s. (None, b))\<rparr>
     100 ''ctx1'' ''ns1'' ''S'' = (Inr '''', ''S'')
   \<and> read
     \<lparr>ExpirationTimestamp = (\<lambda>t. t),
      Unmarshal_store = (\<lambda>b.
        if b = ''S'' then Inr [\<lparr>ContextName = ''ctx1'', Namespace = ''ns1'', Token = 40\<rparr>]
        else Inl (ExternalError ''json'')),
      MarshalIndent_store = (\<lambda>st. Inl (ExternalError ''json'')),
      Unmarshal_token = (\<lambda>b. Inl (ExternalError ''json'')),
      MarshalIndent_token = (\<lambda>t. Inr ''tok'')\<rparr>
     \<lparr>Get = (\<lambda>s. (Inr s, s)), Set = (\<lambda>b s. (None, b))\<rparr>
     ''S'' = (Inr [\<lparr>ContextName = ''ctx1'', Namespace = ''ns1'', Token = 40\<rparr>], ''S'')"
proof -
  let ?J = "\<lparr>ExpirationTimestamp = (\<lambda>t. t),
      Unmarshal_store = (\<lambda>b.
        if b = ''S'' then Inr [\<lparr>ContextName = ''ctx1'', Namespace = ''ns1'', Token = 40\<rparr>]
        else Inl (ExternalError ''json'')),
      MarshalIndent_store = (\<lambda>st. Inl (ExternalError ''json'')),
      Unmarshal_token = (\<lambda>b. Inl (ExternalError ''json'')),
      MarshalIndent_token = (\<lambda>t. Inr ''tok'')\<rparr> :: int externals"
  let ?c = "\<lparr>Get = (\<lambda>s. (Inr s, s)), Set = (\<lambda>b s. (None, b))\<rparr> :: string stringStore"
  let ?r = "\<lparr>ContextName = ''ctx1'', Namespace = ''ns1'', Token = 40\<rparr> :: int storeRegister"
  have r: "read ?J ?c ''S'' = (Inr [?r], ''S'')"
    by (simp add: read_def)
  have f: "find (hasKey ''ctx1'' ''ns1'') [?r] = Some ?r"
    by (simp add: hasKey_def)
  have e: "ExpirationTimestamp ?J (Token ?r) \<le> 100"
    by simp
  have g: "KubeTokenCache_Get ?J ?c 100 ''ctx1'' ''ns1'' ''S'' = (Inr '''', ''S'')
        \<and> read ?J ?c (snd (KubeTokenCache_Get ?J ?c 100 ''ctx1'' ''ns1'' ''S'')) = (Inr [?r], ''S'')"
    using Get_frame [where J = ?J and c = ?c and now = 100 and ctx = "''ctx1''"
        and ns = "''ns1''" and s = "''S''"] r f e by blast
  show ?thesis
    using conjunct1 [OF g] r by (rule conjI)
qed

section \<open>Writing, then reading\<close>

lemma Get_loop_setWithErr_store:
  "Get_loop J now ctx ns (setWithErr_store ctx ns tok store) =
     (if now < ExpirationTimestamp J tok
      then (case MarshalIndent_token J tok of Inr tokenString \<Rightarrow> tokenString | Inl err \<Rightarrow> '''')
      else '''')"
proof -
  let ?new = "setWithErr_store ctx ns tok store"
  have "(ctx, ns) \<in> set (map keyOf ?new)"
    unfolding keyOf_setWithErr_store by simp
  then obtain x where x: "x \<in> set ?new" "hasKey ctx ns x"
    by (auto simp: hasKey_keyOf)
  then have "find (hasKey ctx ns) ?new \<noteq> None"
    by (auto simp: find_None_iff)
  then obtain r where r: "find (hasKey ctx ns) ?new = Some r"
    by blast
  then have "r \<in> set ?new" "hasKey ctx ns r"
    by (auto simp: find_Some_iff)
  then have "Token r = tok"
    by (rule token_setWithErr_store)
  then show ?thesis
    by (simp add: Get_loop_find r)
qed

text \<open>
  Claim C2. Let \<open>setWithErr contextName namespace token\<close> return no error over a byte store
  that, in the state the write left, gives back without error the bytes it took, and let
  the JSON decoder invert the encoder wherever the encoder succeeds. If the token's
  expiration is strictly after \<open>now\<close>, then \<open>Get contextName namespace\<close> in that state
  returns, with no error, the encoding \<open>js\<close> of the token that was stored, which decodes
  to that very token.
\<close>

theorem setWithErr_then_Get:
  assumes ok: "setWithErr J c ctx ns tok s = (None, s1)"
    and gets: "\<forall>b s0. Set c b s0 = (None, s1) \<longrightarrow> fst (Get c s1) = Inr b"
    and codec: "\<forall>st b. MarshalIndent_store J st = Inr b \<longrightarrow> Unmarshal_store J b = Inr st"
    and enc: "MarshalIndent_token J tok = Inr js"
    and dec: "Unmarshal_token J js = Inr tok"
    and live: "now < ExpirationTimestamp J tok"
  shows "fst (KubeTokenCache_Get J c now ctx ns s1) = Inr js \<and> Unmarshal_token J js = Inr tok"
proof -
  obtain store s0 where rd: "read J c s = (Inr store, s0)"
    using ok by (auto simp: setWithErr_def split: prod.splits sum.splits)
  let ?new = "setWithErr_store ctx ns tok store"
  obtain newStore where w: "MarshalIndent_store J ?new = Inr newStore"
      "Set c newStore s0 = (None, s1)"
    using setWithErr_success [OF rd ok] by blast
  have "fst (Get c s1) = Inr newStore"
    using gets w(2) by blast
  moreover have "Unmarshal_store J newStore = Inr ?new"
    using codec w(1) by blast
  ultimately have "fst (read J c s1) = Inr ?new"
    by (auto simp: read_def split: prod.splits sum.splits)
  then have "fst (KubeTokenCache_Get J c now ctx ns s1) = Inr (Get_loop J now ctx ns ?new)"
    by (auto simp: KubeTokenCache_Get_def split: prod.splits sum.splits)
  then show ?thesis
    using enc dec live by (simp add: Get_loop_setWithErr_store)
qed

theorem setWithErr_then_Get_witness:
  "setWithErr
     \<lparr>ExpirationTimestamp = (\<lambda>t. t),
      Unmarshal_store = (\<lambda>b.
        if b = ''[]'' then Inr []
        else if b = ''new'' then Inr [\<lparr>ContextName = ''ctx1'', Namespace = ''ns1'', Token = 500\<rparr>]
        else Inl (ExternalError ''json'')),
      MarshalIndent_store = (\<lambda>st.
        if st = [\<lparr>ContextName = ''ctx1'', Namespace = ''ns1'', Token = 500\<rparr>] then Inr ''new''
        else Inl (ExternalError ''json'')),
      Unmarshal_token = (\<lambda>b. if b = ''tok'' then Inr 500 else Inl (ExternalError ''json'')),
      MarshalIndent_token = (\<lambda>t. if t = 500 then Inr ''tok'' else Inl (ExternalError ''json''))\<rparr>
     \<lparr>Get = (\<lambda>s. (Inr s, s)), Set = (\<lambda>b s. (None, b))\<rparr>
     ''ctx1'' ''ns1'' (500::int) ''[]'' = (None, ''new'')
   \<and> fst (KubeTokenCache_Get
     \<lparr>ExpirationTimestamp = (\<lambda>t. t),
      Unmarshal_store = (\<lambda>b.
        if b = ''[]'' then Inr []
        else if b = ''new'' then Inr [\<lparr>ContextName = ''ctx1'', Namespace = ''ns1'', Token = 500\<rparr>]
        else Inl (ExternalError ''json'')),
      MarshalIndent_store = (\<lambda>st.
        if st = [\<lparr>ContextName = ''ctx1'', Namespace = ''ns1'', Token = 500\<rparr>] then Inr ''new''
        else Inl (ExternalError ''json'')),
      Unmarshal_token = (\<lambda>b. if b = ''tok'' then Inr 500 else Inl (ExternalError ''json'')),
      MarshalIndent_token = (\<lambda>t. if t = 500 then Inr ''tok'' else Inl (ExternalError ''json''))\<rparr>
     \<lparr>Get = (\<lambda>s. (Inr s, s)), Set = (\<lambda>b s. (None, b))\<rparr>
     100 ''ctx1'' ''ns1'' ''new'') = Inr ''tok''"
proof -
  let ?J = "\<lparr>ExpirationTimestamp = (\<lambda>t. t),
      Unmarshal_store = (\<lambda>b.
        if b = ''[]'' then Inr []
        else if b = ''new'' then Inr [\<lparr>ContextName = ''ctx1'', Namespace = ''ns1'', Token = 500\<rparr>]
        else Inl (ExternalError ''json'')),
      MarshalIndent_store = (\<lambda>st.
        if st = [\<lparr>ContextName = ''ctx1'', Namespace = ''ns1'', Token = 500\<rparr>] then Inr ''new''
        else Inl (ExternalError ''json'')),
      Unmarshal_token = (\<lambda>b. if b = ''tok'' then Inr 500 else Inl (ExternalError ''json'')),
      MarshalIndent_token = (\<lambda>t. if t = 500 then Inr ''tok'' else Inl (ExternalError ''json''))\<rparr> :: int externals"
  let ?c = "\<lparr>Get = (\<lambda>s. (Inr s, s)), Set = (\<lambda>b s. (None, b))\<rparr> :: string stringStore"
  have w: "setWithErr ?J ?c ''ctx1'' ''ns1'' 500 ''[]'' = (None, ''new'')"
    by (simp add: setWithErr_def read_def setWithErr_store_def setWithErr_loop.simps)
  have g: "\<forall>b s0. Set ?c b s0 = (None, ''new'') \<longrightarrow> fst (Get ?c ''new'') = Inr b"
    by simp
  have cd: "\<forall>st b. MarshalIndent_store ?J st = Inr b \<longrightarrow> Unmarshal_store ?J b = Inr st"
    by simp
  have e: "MarshalIndent_token ?J 500 = Inr ''tok''"
    by simp
  have d: "Unmarshal_token ?J ''tok'' = Inr 500"
    by simp
  have l: "100 < ExpirationTimestamp ?J 500"
    by simp
  show ?thesis
    using setWithErr_then_Get [OF w g cd e d l] w by simp
qed

section \<open>The file-backed store on a missing file\<close>

text \<open>
  Claim C9. Let \<open>os.Stat\<close> fail with an error that is \<open>os.ErrNotExist\<close>, let \<open>os.WriteFile\<close> of
  \<open>[]\<close> succeed and \<open>os.ReadFile\<close> then read \<open>[]\<close> back, and let \<open>[]\<close> decode to the
  empty sequence. Then \<open>FileByteStore.Get\<close> writes \<open>[]\<close> first and returns the contents
  \<open>[]\<close>; \<open>Get\<close> of the cache over this store returns, for any key, the empty string and
  no error; and the file system is left in the state \<open>os.WriteFile\<close> produced, which,
  the file now existing, reads back as the empty sequence.
\<close>

theorem FileByteStore_bootstrap:
  assumes "Stat OS FileName fs = Some err"
    and "errors_Is_ErrNotExist err"
    and "WriteFile OS FileName ''[]'' fs = (None, fs1)"
    and "ReadFile OS FileName fs1 = Inr ''[]''"
    and "Unmarshal_store J ''[]'' = Inr []"
  shows "FileByteStore_Get OS FileName fs = (Inr ''[]'', fs1)
       \<and> KubeTokenCache_Get J (FileByteStore OS FileName) now ctx ns fs = (Inr '''', fs1)
       \<and> (Stat OS FileName fs1 = None \<longrightarrow>
            read J (FileByteStore OS FileName) fs1 = (Inr [], fs1))"
  using assms
  by (simp add: FileByteStore_Get_def FileByteStore_def KubeTokenCache_Get_def read_def)

theorem FileByteStore_bootstrap_witness:
  "FileByteStore_Get
     \<lparr>Stat = (\<lambda>p fs. if fs p = None then Some ErrNotExist else None),
      WriteFile = (\<lambda>p b fs. (None, fs(p \<mapsto> b))),
      ReadFile = (\<lambda>p fs. case fs p of None \<Rightarrow> Inl ErrNotExist | Some b \<Rightarrow> Inr b)\<rparr>
     ''kubetoken.json'' Map.empty = (Inr ''[]'', [''kubetoken.json'' \<mapsto> ''[]''])
   \<and> KubeTokenCache_Get
     \<lparr>ExpirationTimestamp = (\<lambda>t. t),
      Unmarshal_store = (\<lambda>b. if b = ''[]'' then Inr [] else Inl (ExternalError ''json'')),
      MarshalIndent_store = (\<lambda>st. Inl (ExternalError ''json'')),
      Unmarshal_token = (\<lambda>b. Inl (ExternalError ''json'')),
      MarshalIndent_token = (\<lambda>t. Inl (ExternalError ''json''))\<rparr>
     (FileByteStore
       \<lparr>Stat = (\<lambda>p fs. if fs p = None then Some ErrNotExist else None),
        WriteFile = (\<lambda>p b fs. (None, fs(p \<mapsto> b))),
        ReadFile = (\<lambda>p fs. case fs p of None \<Rightarrow> Inl ErrNotExist | Some b \<Rightarrow> Inr b)\<rparr>
       ''kubetoken.json'')
     (100::int) ''ctx1'' ''ns1'' Map.empty = (Inr '''', [''kubetoken.json'' \<mapsto> ''[]''])
   \<and> read
     \<lparr>ExpirationTimestamp = (\<lambda>t. t),
      Unmarshal_store = (\<lambda>b. if b = ''[]'' then Inr [] else Inl (ExternalError ''json'')),
      MarshalIndent_store = (\<lambda>st. Inl (ExternalError ''json'')),
      Unmarshal_token = (\<lambda>b. Inl (ExternalError ''json'')),
      MarshalIndent_token = (\<lambda>t. Inl (ExternalError ''json''))\<rparr>
     (FileByteStore
       \<lparr>Stat = (\<lambda>p fs. if fs p = None then Some ErrNotExist else None),
        WriteFile = (\<lambda>p b fs. (None, fs(p \<mapsto> b))),
        ReadFile = (\<lambda>p fs. case fs p of None \<Rightarrow> Inl ErrNotExist | Some b \<Rightarrow> Inr b)\<rparr>
       ''kubetoken.json'')
     [''kubetoken.json'' \<mapsto> ''[]'']
     = (Inr ([] :: int storeRegister list), [''kubetoken.json'' \<mapsto> ''[]''])"
proof -
  let ?OS = "\<lparr>Stat = (\<lambda>p fs. if fs p = None then Some ErrNotExist else None),
      WriteFile = (\<lambda>p b fs. (None, fs(p \<mapsto> b))),
      ReadFile = (\<lambda>p fs. case fs p of None \<Rightarrow> Inl ErrNotExist | Some b \<Rightarrow> Inr b)\<rparr>
      :: (string \<rightharpoonup> string) os"
  let ?J = "\<lparr>ExpirationTimestamp = (\<lambda>t. t),
      Unmarshal_store = (\<lambda>b. if b = ''[]'' then Inr [] else Inl (ExternalError ''json'')),
      MarshalIndent_store = (\<lambda>st. Inl (ExternalError ''json'')),
      Unmarshal_token = (\<lambda>b. Inl (ExternalError ''json'')),
      MarshalIndent_token = (\<lambda>t. Inl (ExternalError ''json''))\<rparr> :: int externals"
  let ?fs1 = "[''kubetoken.json'' \<mapsto> ''[]''] :: string \<rightharpoonup> string"
  have st: "Stat ?OS ''kubetoken.json'' Map.empty = Some ErrNotExist"
    by simp
  have ne: "errors_Is_ErrNotExist ErrNotExist"
    by simp
  have wr: "WriteFile ?OS ''kubetoken.json'' ''[]'' Map.empty = (None, ?fs1)"
    by simp
  have rd: "ReadFile ?OS ''kubetoken.json'' ?fs1 = Inr ''[]''"
    by simp
  have un: "Unmarshal_store ?J ''[]'' = Inr []"
    by simp
  have ex: "Stat ?OS ''kubetoken.json'' ?fs1 = None"
    by simp
  show ?thesis
    using FileByteStore_bootstrap [OF st ne wr rd un, of 100 "''ctx1''" "''ns1''"] ex by blast
qed

section \<open>Fetching a token\<close>

text \<open>
  Claim C4. Let the response have status 200, let its body be read as \<open>body\<close>, and let
  \<open>body\<close> decode to \<open>token\<close>. Then \<open>GetKubeToken\<close> returns \<open>body\<close> itself, not an
  encoding of \<open>token\<close>, and its final state is the one \<open>cache.Set\<close> returns for the
  client's context name, namespace and \<open>token\<close>. When the cache is a \<open>KubeTokenCache\<close>
  and its write goes through, over a byte store that gives back the bytes it took and a
  JSON decoder that inverts the encoder, the store afterwards decodes to a sequence with
  a register for that key whose token is \<open>token\<close>. The write is best effort, so the
  register is promised only when it goes through.
\<close>

theorem GetKubeToken_ok:
  assumes "httpClient_Get k (url k) = Inr resp"
    and "StatusCode resp = StatusOK"
    and "Body resp = Inr body"
    and "Unmarshal_token J body = Inr token"
  shows "GetKubeToken J k s = (Inr body, cache k (contextName k) (namespace k) token s)
       \<and> (\<forall>c s1.
             cache k = KubeTokenCache_Set J c
           \<and> setWithErr J c (contextName k) (namespace k) token s = (None, s1)
           \<and> (\<forall>b s0. Set c b s0 = (None, s1) \<longrightarrow> fst (Get c s1) = Inr b)
           \<and> (\<forall>st b. MarshalIndent_store J st = Inr b \<longrightarrow> Unmarshal_store J b = Inr st)
           \<longrightarrow> snd (GetKubeToken J k s) = s1
             \<and> (\<exists>store. fst (read J c s1) = Inr store
                  \<and> (\<exists>r\<in>set store. hasKey (contextName k) (namespace k) r \<and> Token r = token)))"
proof -
  have ret: "GetKubeToken J k s = (Inr body, cache k (contextName k) (namespace k) token s)"
    using assms by (simp add: GetKubeToken_def StatusOK_def StatusUnauthorized_def)
  have "snd (GetKubeToken J k s) = s1
        \<and> (\<exists>store. fst (read J c s1) = Inr store
             \<and> (\<exists>r\<in>set store. hasKey (contextName k) (namespace k) r \<and> Token r = token))"
    if ck: "cache k = KubeTokenCache_Set J c"
      and ok: "setWithErr J c (contextName k) (namespace k) token s = (None, s1)"
      and gets: "\<forall>b s0. Set c b s0 = (None, s1) \<longrightarrow> fst (Get c s1) = Inr b"
      and codec: "\<forall>st b. MarshalIndent_store J st = Inr b \<longrightarrow> Unmarshal_store J b = Inr st"
    for c s1
  proof -
    let ?ctx = "contextName k" and ?ns = "namespace k"
    obtain store s0 where rd: "read J c s = (Inr store, s0)"
      using ok by (auto simp: setWithErr_def split: prod.splits sum.splits)
    let ?new = "setWithErr_store ?ctx ?ns token store"
    obtain newStore where w: "MarshalIndent_store J ?new = Inr newStore"
        "Set c newStore s0 = (None, s1)"
      using setWithErr_success [OF rd ok] by blast
    have "fst (Get c s1) = Inr newStore"
      using gets w(2) by blast
    moreover have "Unmarshal_store J newStore = Inr ?new"
      using codec w(1) by blast
    ultimately have r1: "fst (read J c s1) = Inr ?new"
      by (auto simp: read_def split: prod.splits sum.splits)
    have "(?ctx, ?ns) \<in> set (map keyOf ?new)"
      unfolding keyOf_setWithErr_store by simp
    then obtain r where r: "r \<in> set ?new" "hasKey ?ctx ?ns r"
      by (auto simp: hasKey_keyOf)
    then have "Token r = token"
      by (rule token_setWithErr_store)
    with r r1 have "\<exists>store. fst (read J c s1) = Inr store
             \<and> (\<exists>r\<in>set store. hasKey ?ctx ?ns r \<and> Token r = token)"
      by blast
    moreover have "snd (GetKubeToken J k s) = s1"
      using ret ck ok by (simp add: KubeTokenCache_Set_def)
    ultimately show ?thesis by blast
  qed
  with ret show ?thesis by blast
qed

theorem GetKubeToken_ok_witness:
  "GetKubeToken
     \<lparr>ExpirationTimestamp = (\<lambda>t. t),
      Unmarshal_store = (\<lambda>b.
        if b = ''[]'' then Inr []
        else if b = ''new'' then Inr [\<lparr>ContextName = ''ctx1'', Namespace = ''ns1'', Token = 500\<rparr>]
        else Inl (ExternalError ''json'')),
      MarshalIndent_store = (\<lambda>st.
        if st = [\<lparr>ContextName = ''ctx1'', Namespace = ''ns1'', Token = 500\<rparr>] then Inr ''new''
        else Inl (ExternalError ''json'')),
      Unmarshal_token = (\<lambda>b. if b = ''raw body'' then Inr 500 else Inl (ExternalError ''json'')),
      MarshalIndent_token = (\<lambda>t. if t = 500 then Inr ''pretty'' else Inl (ExternalError ''json''))\<rparr>
     \<lparr>httpClient_Get = (\<lambda>u. Inr \<lparr>StatusCode = 200, Status = ''200 OK'', Body = Inr ''raw body''\<rparr>),
      url = ''https://okteto.example/auth/kubetoken/ns1'',
      contextName = ''ctx1'',
      namespace = ''ns1'',
      cache = KubeTokenCache_Set
        \<lparr>ExpirationTimestamp = (\<lambda>t. t),
         Unmarshal_store = (\<lambda>b.
           if b = ''[]'' then Inr []
           else if b = ''new'' then Inr [\<lparr>ContextName = ''ctx1'', Namespace = ''ns1'', Token = 500\<rparr>]
           else Inl (ExternalError ''json'')),
         MarshalIndent_store = (\<lambda>st.
           if st = [\<lparr>ContextName = ''ctx1'', Namespace = ''ns1'', Token = 500\<rparr>] then Inr ''new''
           else Inl (ExternalError ''json'')),
         Unmarshal_token = (\<lambda>b. if b = ''raw body'' then Inr 500 else Inl (ExternalError ''json'')),
         MarshalIndent_token = (\<lambda>t. if t = 500 then Inr ''pretty'' else Inl (ExternalError ''json''))\<rparr>
        \<lparr>Get = (\<lambda>s. (Inr s, s)), Set = (\<lambda>b s. (None, b))\<rparr>\<rparr>
     ''[]'' = (Inr ''raw body'', ''new'')
   \<and> (\<exists>store. fst (read
     \<lparr>ExpirationTimestamp = (\<lambda>t. t),
      Unmarshal_store = (\<lambda>b.
        if b = ''[]'' then Inr []
        else if b = ''new'' then Inr [\<lparr>ContextName = ''ctx1'', Namespace = ''ns1'', Token = 500\<rparr>]
        else Inl (ExternalError ''json'')),
      MarshalIndent_store = (\<lambda>st.
        if st = [\<lparr>ContextName = ''ctx1'', Namespace = ''ns1'', Token = 500\<rparr>] then Inr ''new''
        else Inl (ExternalError ''json'')),
      Unmarshal_token = (\<lambda>b. if b = ''raw body'' then Inr 500 else Inl (ExternalError ''json'')),
      MarshalIndent_token = (\<lambda>t. if t = 500 then Inr ''pretty'' else Inl (ExternalError ''json''))\<rparr>
     \<lparr>Get = (\<lambda>s. (Inr s, s)), Set = (\<lambda>b s. (None, b))\<rparr>
     ''new'') = Inr store
       \<and> (\<exists>r\<in>set store. hasKey ''ctx1'' ''ns1'' r \<and> Token r = (500::int)))"
proof -
  let ?J = "\<lparr>ExpirationTimestamp = (\<lambda>t. t),
      Unmarshal_store = (\<lambda>b.
        if b = ''[]'' then Inr []
        else if b = ''new'' then Inr [\<lparr>ContextName = ''ctx1'', Namespace = ''ns1'', Token = 500\<rparr>]
        else Inl (ExternalError ''json'')),
      MarshalIndent_store = (\<lambda>st.
        if st = [\<lparr>ContextName = ''ctx1'', Namespace = ''ns1'', Token = 500\<rparr>] then Inr ''new''
        else Inl (ExternalError ''json'')),
      Unmarshal_token = (\<lambda>b. if b = ''raw body'' then Inr 500 else Inl (ExternalError ''json'')),
      MarshalIndent_token = (\<lambda>t. if t = 500 then Inr ''pretty'' else Inl (ExternalError ''json''))\<rparr> :: int externals"
  let ?c = "\<lparr>Get = (\<lambda>s. (Inr s, s)), Set = (\<lambda>b s. (None, b))\<rparr> :: string stringStore"
  let ?resp = "\<lparr>StatusCode = 200, Status = ''200 OK'', Body = Inr ''raw body''\<rparr>"
  let ?k = "\<lparr>httpClient_Get = (\<lambda>u. Inr ?resp),
      url = ''https://okteto.example/auth/kubetoken/ns1'',
      contextName = ''ctx1'',
      namespace = ''ns1'',
      cache = KubeTokenCache_Set ?J ?c\<rparr>"
  have h: "httpClient_Get ?k (url ?k) = Inr ?resp"
    by simp
  have st: "StatusCode ?resp = StatusOK"
    by (simp add: StatusOK_def)
  have bd: "Body ?resp = Inr ''raw body''"
    by simp
  have un: "Unmarshal_token ?J ''raw body'' = Inr 500"
    by simp
  have ck: "cache ?k = KubeTokenCache_Set ?J ?c"
    by simp
  have w: "setWithErr ?J ?c (contextName ?k) (namespace ?k) 500 ''[]'' = (None, ''new'')"
    by (simp add: setWithErr_def read_def setWithErr_store_def setWithErr_loop.simps)
  have g: "\<forall>b s0. Set ?c b s0 = (None, ''new'') \<longrightarrow> fst (Get ?c ''new'') = Inr b"
    by simp
  have cd: "\<forall>st b. MarshalIndent_store ?J st = Inr b \<longrightarrow> Unmarshal_store ?J b = Inr st"
    by simp
  have cn: "contextName ?k = ''ctx1''" and nn: "namespace ?k = ''ns1''"
    by simp_all
  have hyp: "cache ?k = KubeTokenCache_Set ?J ?c
      \<and> setWithErr ?J ?c (contextName ?k) (namespace ?k) 500 ''[]'' = (None, ''new'')
      \<and> (\<forall>b s0. Set ?c b s0 = (None, ''new'') \<longrightarrow> fst (Get ?c ''new'') = Inr b)
      \<and> (\<forall>st b. MarshalIndent_store ?J st = Inr b \<longrightarrow> Unmarshal_store ?J b = Inr st)"
    using ck w g cd by (intro conjI)
  note T = GetKubeToken_ok [OF h st bd un, of "''[]''"]
  note A = T [THEN conjunct1]
  note B = T [THEN conjunct2, rule_format, OF hyp]
  have f: "fst (GetKubeToken ?J ?k ''[]'') = Inr ''raw body''"
    by (simp only: A fst_conv)
  have s: "snd (GetKubeToken ?J ?k ''[]'') = ''new''"
    using B by (rule conjunct1)
  have "GetKubeToken ?J ?k ''[]'' = (Inr ''raw body'', ''new'')"
    using f s by (simp only: prod_eq_iff fst_conv snd_conv)
  moreover have "\<exists>store. fst (read ?J ?c ''new'') = Inr store
           \<and> (\<exists>r\<in>set store. hasKey ''ctx1'' ''ns1'' r \<and> Token r = 500)"
    using B [THEN conjunct2] by (simp only: cn nn)
  ultimately show ?thesis
    by (rule conjI)
qed

text \<open>
  Without the write going through there is no such register, although the fetch
  succeeds: over a store whose contents do not decode, a 200 response with a body that
  decodes makes \<open>GetKubeToken\<close> return the body and leave the store as it was, and
  reading the cache afterwards fails with the decode error.
\<close>

theorem GetKubeToken_ok_counterexample:
  "StatusCode \<lparr>StatusCode = 200, Status = ''200 OK'', Body = Inr ''raw body''\<rparr> = StatusOK
   \<and> GetKubeToken
     \<lparr>ExpirationTimestamp = (\<lambda>t. t),
      Unmarshal_store = (\<lambda>b. if b = ''[]'' then Inr [] else Inl (ExternalError ''json'')),
      MarshalIndent_store = (\<lambda>st. Inr ''new''),
      Unmarshal_token = (\<lambda>b. if b = ''raw body'' then Inr 500 else Inl (ExternalError ''json'')),
      MarshalIndent_token = (\<lambda>t. Inr ''pretty'')\<rparr>
     \<lparr>httpClient_Get = (\<lambda>u. Inr \<lparr>StatusCode = 200, Status = ''200 OK'', Body = Inr ''raw body''\<rparr>),
      url = ''https://okteto.example/auth/kubetoken/ns1'',
      contextName = ''ctx1'',
      namespace = ''ns1'',
      cache = KubeTokenCache_Set
        \<lparr>ExpirationTimestamp = (\<lambda>t. t),
         Unmarshal_store = (\<lambda>b. if b = ''[]'' then Inr [] else Inl (ExternalError ''json'')),
         MarshalIndent_store = (\<lambda>st. Inr ''new''),
         Unmarshal_token = (\<lambda>b. if b = ''raw body'' then Inr 500 else Inl (ExternalError ''json'')),
         MarshalIndent_token = (\<lambda>t. Inr ''pretty'')\<rparr>
        \<lparr>Get = (\<lambda>s. (Inr s, s)), Set = (\<lambda>b s. (None, b))\<rparr>\<rparr>
     ''garbage'' = (Inr ''raw body'', ''garbage'')
   \<and> read
     \<lparr>ExpirationTimestamp = (\<lambda>t. t),
      Unmarshal_store = (\<lambda>b. if b = ''[]'' then Inr [] else Inl (ExternalError ''json'')),
      MarshalIndent_store = (\<lambda>st. Inr ''new''),
      Unmarshal_token = (\<lambda>b. if b = ''raw body'' then Inr (500::int) else Inl (ExternalError ''json'')),
      MarshalIndent_token = (\<lambda>t. Inr ''pretty'')\<rparr>
     \<lparr>Get = (\<lambda>s. (Inr s, s)), Set = (\<lambda>b s. (None, b))\<rparr>
     ''garbage'' = (Inl DecodeError, ''garbage'')
   \<and> KubeTokenCache_Get
     \<lparr>ExpirationTimestamp = (\<lambda>t. t),
      Unmarshal_store = (\<lambda>b. if b = ''[]'' then Inr [] else Inl (ExternalError ''json'')),
      MarshalIndent_store = (\<lambda>st. Inr ''new''),
      Unmarshal_token = (\<lambda>b. if b = ''raw body'' then Inr (500::int) else Inl (ExternalError ''json'')),
      MarshalIndent_token = (\<lambda>t. Inr ''pretty'')\<rparr>
     \<lparr>Get = (\<lambda>s. (Inr s, s)), Set = (\<lambda>b s. (None, b))\<rparr>
     100 ''ctx1'' ''ns1'' ''garbage'' = (Inl DecodeError, ''garbage'')"
  by (simp add: GetKubeToken_def StatusOK_def StatusUnauthorized_def KubeTokenCache_Set_def
      setWithErr_def read_def KubeTokenCache_Get_def)

text \<open>
  Claim C5. Let the transport return a response. With status 401, \<open>GetKubeToken\<close> fails
  with the not-logged error that names the client's context; with any other status than
  200, it fails with the error that carries the response's status text. In both cases
  the state is unchanged, and the result is the same whatever \<open>cache.Set\<close> is: the cache
  is not written.
\<close>

theorem GetKubeToken_status:
  assumes "httpClient_Get k (url k) = Inr resp"
  shows "(StatusCode resp = 401 \<longrightarrow>
            GetKubeToken J k s = (Inl (ErrNotLogged (contextName k)), s))
       \<and> (StatusCode resp \<noteq> 401 \<and> StatusCode resp \<noteq> 200 \<longrightarrow>
            GetKubeToken J k s = (Inl (UnexpectedStatus (Status resp)), s))
       \<and> (StatusCode resp \<noteq> 200 \<longrightarrow>
            (\<forall>f. GetKubeToken J (k\<lparr>cache := f\<rparr>) s = GetKubeToken J k s))"
  using assms by (simp add: GetKubeToken_def StatusOK_def StatusUnauthorized_def)

theorem GetKubeToken_status_witness:
  "GetKubeToken
     \<lparr>ExpirationTimestamp = (\<lambda>t. t),
      Unmarshal_store = (\<lambda>b. if b = ''[]'' then Inr [] else Inl (ExternalError ''json'')),
      MarshalIndent_store = (\<lambda>st. Inr ''new''),
      Unmarshal_token = (\<lambda>b. Inr 500),
      MarshalIndent_token = (\<lambda>t. Inr ''pretty'')\<rparr>
     \<lparr>httpClient_Get = (\<lambda>u. Inr \<lparr>StatusCode = 401, Status = ''401 Unauthorized'', Body = Inr ''''\<rparr>),
      url = ''https://okteto.example/auth/kubetoken/ns1'',
      contextName = ''ctx1'',
      namespace = ''ns1'',
      cache = KubeTokenCache_Set
        \<lparr>ExpirationTimestamp = (\<lambda>t. t),
         Unmarshal_store = (\<lambda>b. if b = ''[]'' then Inr [] else Inl (ExternalError ''json'')),
         MarshalIndent_store = (\<lambda>st. Inr ''new''),
         Unmarshal_token = (\<lambda>b. Inr 500),
         MarshalIndent_token = (\<lambda>t. Inr ''pretty'')\<rparr>
        \<lparr>Get = (\<lambda>s. (Inr s, s)), Set = (\<lambda>b s. (None, b))\<rparr>\<rparr>
     ''[]'' = (Inl (ErrNotLogged ''ctx1''), ''[]'')
   \<and> GetKubeToken
     \<lparr>ExpirationTimestamp = (\<lambda>t. t),
      Unmarshal_store = (\<lambda>b. if b = ''[]'' then Inr [] else Inl (ExternalError ''json'')),
      MarshalIndent_store = (\<lambda>st. Inr ''new''),
      Unmarshal_token = (\<lambda>b. Inr 500),
      MarshalIndent_token = (\<lambda>t. Inr ''pretty'')\<rparr>
     \<lparr>httpClient_Get = (\<lambda>u. Inr \<lparr>StatusCode = 503, Status = ''503 Service Unavailable'', Body = Inr ''''\<rparr>),
      url = ''https://okteto.example/auth/kubetoken/ns1'',
      contextName = ''ctx1'',
      namespace = ''ns1'',
      cache = KubeTokenCache_Set
        \<lparr>ExpirationTimestamp = (\<lambda>t. t),
         Unmarshal_store = (\<lambda>b. if b = ''[]'' then Inr [] else Inl (ExternalError ''json'')),
         MarshalIndent_store = (\<lambda>st. Inr ''new''),
         Unmarshal_token = (\<lambda>b. Inr 500),
         MarshalIndent_token = (\<lambda>t. Inr ''pretty'')\<rparr>
        \<lparr>Get = (\<lambda>s. (Inr s, s)), Set = (\<lambda>b s. (None, b))\<rparr>\<rparr>
     ''[]'' = (Inl (UnexpectedStatus ''503 Service Unavailable''), ''[]'')"
proof -
  let ?J = "\<lparr>ExpirationTimestamp = (\<lambda>t. t),
      Unmarshal_store = (\<lambda>b. if b = ''[]'' then Inr [] else Inl (ExternalError ''json'')),
      MarshalIndent_store = (\<lambda>st. Inr ''new''),
      Unmarshal_token = (\<lambda>b. Inr 500),
      MarshalIndent_token = (\<lambda>t. Inr ''pretty'')\<rparr> :: int externals"
  let ?c = "\<lparr>Get = (\<lambda>s. (Inr s, s)), Set = (\<lambda>b s. (None, b))\<rparr> :: string stringStore"
  let ?r401 = "\<lparr>StatusCode = 401, Status = ''401 Unauthorized'', Body = Inr ''''\<rparr>"
  let ?r503 = "\<lparr>StatusCode = 503, Status = ''503 Service Unavailable'', Body = Inr ''''\<rparr>"
  let ?k401 = "\<lparr>httpClient_Get = (\<lambda>u. Inr ?r401),
      url = ''https://okteto.example/auth/kubetoken/ns1'',
      contextName = ''ctx1'',
      namespace = ''ns1'',
      cache = KubeTokenCache_Set ?J ?c\<rparr>"
  let ?k503 = "\<lparr>httpClient_Get = (\<lambda>u. Inr ?r503),
      url = ''https://okteto.example/auth/kubetoken/ns1'',
      contextName = ''ctx1'',
      namespace = ''ns1'',
      cache = KubeTokenCache_Set ?J ?c\<rparr>"
  have a: "httpClient_Get ?k401 (url ?k401) = Inr ?r401"
    by simp
  have b: "httpClient_Get ?k503 (url ?k503) = Inr ?r503"
    by simp
  show ?thesis
    using GetKubeToken_status [OF a, of ?J "''[]''"] GetKubeToken_status [OF b, of ?J "''[]''"]
    by simp
qed

text \<open>
  Claim C8. Let the response have status 200 and a body that is read and decodes, and let
  the client's cache be a \<open>KubeTokenCache\<close>, whose \<open>Set\<close> returns no error at all. Then
  \<open>GetKubeToken\<close> returns the body with no error, whatever the byte store does; and when
  \<open>setWithErr\<close> fails with some error, \<open>GetKubeToken\<close> still returns the body, in the
  state the failed write left.
\<close>

theorem GetKubeToken_swallows:
  assumes "httpClient_Get k (url k) = Inr resp"
    and "StatusCode resp = StatusOK"
    and "Body resp = Inr body"
    and "Unmarshal_token J body = Inr token"
    and "cache k = KubeTokenCache_Set J c"
  shows "fst (GetKubeToken J k s) = Inr body
       \<and> (\<forall>err s1. setWithErr J c (contextName k) (namespace k) token s = (Some err, s1) \<longrightarrow>
             GetKubeToken J k s = (Inr body, s1))"
  using assms
  by (simp add: GetKubeToken_def StatusOK_def StatusUnauthorized_def KubeTokenCache_Set_def)

theorem GetKubeToken_swallows_witness:
  "setWithErr
     \<lparr>ExpirationTimestamp = (\<lambda>t. t),
      Unmarshal_store = (\<lambda>b. if b = ''[]'' then Inr [] else Inl (ExternalError ''json'')),
      MarshalIndent_store = (\<lambda>st. Inr ''new''),
      Unmarshal_token = (\<lambda>b. if b = ''raw body'' then Inr 500 else Inl (ExternalError ''json'')),
      MarshalIndent_token = (\<lambda>t. Inr ''pretty'')\<rparr>
     \<lparr>Get = (\<lambda>s. (Inr s, s)), Set = (\<lambda>b s. (Some (ExternalError ''read-only file system''), s))\<rparr>
     ''ctx1'' ''ns1'' (500::int) ''[]'' = (Some (ExternalError ''read-only file system''), ''[]'')
   \<and> GetKubeToken
     \<lparr>ExpirationTimestamp = (\<lambda>t. t),
      Unmarshal_store = (\<lambda>b. if b = ''[]'' then Inr [] else Inl (ExternalError ''json'')),
      MarshalIndent_store = (\<lambda>st. Inr ''new''),
      Unmarshal_token = (\<lambda>b. if b = ''raw body'' then Inr 500 else Inl (ExternalError ''json'')),
      MarshalIndent_token = (\<lambda>t. Inr ''pretty'')\<rparr>
     \<lparr>httpClient_Get = (\<lambda>u. Inr \<lparr>StatusCode = 200, Status = ''200 OK'', Body = Inr ''raw body''\<rparr>),
      url = ''https://okteto.example/auth/kubetoken/ns1'',
      contextName = ''ctx1'',
      namespace = ''ns1'',
      cache = KubeTokenCache_Set
        \<lparr>ExpirationTimestamp = (\<lambda>t. t),
         Unmarshal_store = (\<lambda>b. if b = ''[]'' then Inr [] else Inl (ExternalError ''json'')),
         MarshalIndent_store = (\<lambda>st. Inr ''new''),
         Unmarshal_token = (\<lambda>b. if b = ''raw body'' then Inr 500 else Inl (ExternalError ''json'')),
         MarshalIndent_token = (\<lambda>t. Inr ''pretty'')\<rparr>
        \<lparr>Get = (\<lambda>s. (Inr s, s)),
         Set = (\<lambda>b s. (Some (ExternalError ''read-only file system''), s))\<rparr>\<rparr>
     ''[]'' = (Inr ''raw body'', ''[]'')"
proof -
  let ?J = "\<lparr>ExpirationTimestamp = (\<lambda>t. t),
      Unmarshal_store = (\<lambda>b. if b = ''[]'' then Inr [] else Inl (ExternalError ''json'')),
      MarshalIndent_store = (\<lambda>st. Inr ''new''),
      Unmarshal_token = (\<lambda>b. if b = ''raw body'' then Inr 500 else Inl (ExternalError ''json'')),
      MarshalIndent_token = (\<lambda>t. Inr ''pretty'')\<rparr> :: int externals"
  let ?c = "\<lparr>Get = (\<lambda>s. (Inr s, s)),
      Set = (\<lambda>b s. (Some (ExternalError ''read-only file system''), s))\<rparr> :: string stringStore"
  let ?resp = "\<lparr>StatusCode = 200, Status = ''200 OK'', Body = Inr ''raw body''\<rparr>"
  let ?k = "\<lparr>httpClient_Get = (\<lambda>u. Inr ?resp),
      url = ''https://okteto.example/auth/kubetoken/ns1'',
      contextName = ''ctx1'',
      namespace = ''ns1'',
      cache = KubeTokenCache_Set ?J ?c\<rparr>"
  have h: "httpClient_Get ?k (url ?k) = Inr ?resp"
    by simp
  have st: "StatusCode ?resp = StatusOK"
    by (simp add: StatusOK_def)
  have bd: "Body ?resp = Inr ''raw body''"
    by simp
  have un: "Unmarshal_token ?J ''raw body'' = Inr 500"
    by simp
  have ck: "cache ?k = KubeTokenCache_Set ?J ?c"
    by simp
  have w: "setWithErr ?J ?c (contextName ?k) (namespace ?k) 500 ''[]''
             = (Some (ExternalError ''read-only file system''), ''[]'')"
    by (simp add: setWithErr_def read_def setWithErr_store_def setWithErr_loop.simps)
  have "GetKubeToken ?J ?k ''[]'' = (Inr ''raw body'', ''[]'')"
    using GetKubeToken_swallows [OF h st bd un ck, of "''[]''"] w by blast
  moreover have "setWithErr ?J ?c ''ctx1'' ''ns1'' 500 ''[]''
             = (Some (ExternalError ''read-only file system''), ''[]'')"
    using w by simp
  ultimately show ?thesis
    by (rule conjI [rotated])
qed

end
